theory Spec2Isabelle
  imports Complex_Main
begin

section \<open>Checkout and inventory ledger of the point-of-sale application\<close>

text \<open>
  The development embeds \<^verbatim>\<open>splitToJson\<close>, \<^verbatim>\<open>computeReceiptTotals\<close> and
  \<^verbatim>\<open>createReceiptWithItems\<close> (the database module next to \<^verbatim>\<open>electron/main.ts\<close>) and
  the \<^verbatim>\<open>pos:checkout\<close> handler of \<^verbatim>\<open>electron/handlers.ts\<close>, over an explicit model of
  the SQLite tables that these functions read and write.

  Numbers: a JavaScript number is modelled as a rational, so arithmetic is exact and the
  values NaN and Infinity do not occur. Row ids and foreign keys are integers. A
  timestamp is a natural number.
\<close>

subsection \<open>Errors\<close>

text \<open>
  The three exceptions thrown by \<^verbatim>\<open>computeReceiptTotals\<close>, and the two constraint
  failures that SQLite can raise on the inserts of the checkout (the tables are created
  with \<^verbatim>\<open>REFERENCES\<close> clauses and \<^verbatim>\<open>PRAGMA foreign_keys = ON\<close>).
\<close>

datatype error =
    ProductNotFound int
  | InvalidQuantity
  | InsufficientStock string
  | ForeignKeyConstraintFailed
  | PrimaryKeyConstraintFailed

subsection \<open>Tables\<close>

text \<open>Columns that the checkout neither reads nor writes are left out of the rows.\<close>

record user_row =
  u_id :: int
  u_name :: string
  u_role :: string
  u_active :: bool

record product_row =
  p_id :: int
  p_productName :: string
  p_quantity :: rat
  p_mrp :: rat
  p_gst :: rat
  p_updatedAt :: "nat option"

text \<open>The text written by \<^verbatim>\<open>JSON.stringify\<close> on the three payment amounts.\<close>

datatype split_json = SplitJson (j_cashAmt: rat) (j_upiAmt: rat) (j_cardAmt: rat)

record transaction_row =
  tx_id :: int
  tx_finalAmount :: rat
  tx_tax :: rat
  tx_paymentSplit :: split_json
  tx_discount :: "rat option"
  tx_transactionDate :: nat
  tx_createdBy :: int

record receipt_row =
  rc_id :: int
  rc_totalAmount :: rat
  rc_tax :: rat
  rc_paymentSplit :: split_json
  rc_discount :: "rat option"
  rc_receiptDate :: "nat option"
  rc_createdBy :: int

record transaction_item_row =
  ti_id :: int
  ti_transactionId :: int
  ti_productId :: int
  ti_quantity :: rat
  ti_unitPrice :: rat
  ti_amount :: rat
  ti_tax :: rat
  ti_discount :: rat

record product_log_row =
  pl_id :: int
  pl_productId :: int
  pl_receiptId :: "int option"
  pl_type :: string
  pl_quantity :: rat
  pl_amount :: rat
  pl_tax :: rat
  pl_discount :: rat
  pl_datetime :: nat

record store_settings_row =
  ss_id :: int
  ss_userId :: "int option"
  ss_allowNegativeStock :: bool

text \<open>
  The database: each table is the list of its rows in insertion order. A table whose
  \<^verbatim>\<open>id\<close> is \<^verbatim>\<open>AUTOINCREMENT\<close> and that the checkout inserts into also carries its
  entry of \<^verbatim>\<open>sqlite_sequence\<close>, the largest row id that the table has ever held.
\<close>

record db =
  users :: "user_row list"
  products :: "product_row list"
  transactions :: "transaction_row list"
  transactions_seq :: int
  receipts :: "receipt_row list"
  receipts_seq :: int
  transactionItems :: "transaction_item_row list"
  transactionItems_seq :: int
  productLogs :: "product_log_row list"
  productLogs_seq :: int
  storeSettings :: "store_settings_row list"

subsection \<open>Statements\<close>

text \<open>
  The row id that an \<^verbatim>\<open>AUTOINCREMENT\<close> table gives to a row inserted without an id:
  one more than the largest id the table holds or has ever held.
\<close>

definition next_rowid :: "int list \<Rightarrow> int \<Rightarrow> int" where
  "next_rowid ids seq = max seq (foldr max ids 0) + 1"

text \<open>
  \<^verbatim>\<open>db.insert(transactions).values({...}).run()\<close>; the result is
  \<^verbatim>\<open>lastInsertRowid\<close>. The column \<^verbatim>\<open>created_by\<close> references \<^verbatim>\<open>users(id)\<close>.
\<close>

definition insert_transactions ::
  "rat \<Rightarrow> rat \<Rightarrow> split_json \<Rightarrow> rat \<Rightarrow> nat \<Rightarrow> int \<Rightarrow> db \<Rightarrow> (error + int) \<times> db" where
  "insert_transactions finalAmount tax paymentSplit discount transactionDate createdBy d =
     (if createdBy \<notin> set (map u_id (users d)) then (Inl ForeignKeyConstraintFailed, d)
      else
        let rowid = next_rowid (map tx_id (transactions d)) (transactions_seq d) in
        (Inr rowid,
         d\<lparr>transactions := transactions d @
              [\<lparr>tx_id = rowid, tx_finalAmount = finalAmount, tx_tax = tax,
                tx_paymentSplit = paymentSplit, tx_discount = Some discount,
                tx_transactionDate = transactionDate, tx_createdBy = createdBy\<rparr>],
           transactions_seq := rowid\<rparr>))"

text \<open>
  \<^verbatim>\<open>db.insert(receipts).values({id: ..., ...}).run()\<close>: the id is given, so the primary
  key can clash with a row already there.
\<close>

definition insert_receipts ::
  "int \<Rightarrow> rat \<Rightarrow> rat \<Rightarrow> split_json \<Rightarrow> rat \<Rightarrow> nat \<Rightarrow> int \<Rightarrow> db \<Rightarrow> (error + int) \<times> db" where
  "insert_receipts rowid totalAmount tax paymentSplit discount receiptDate createdBy d =
     (if rowid \<in> set (map rc_id (receipts d)) then (Inl PrimaryKeyConstraintFailed, d)
      else if createdBy \<notin> set (map u_id (users d)) then (Inl ForeignKeyConstraintFailed, d)
      else
        (Inr rowid,
         d\<lparr>receipts := receipts d @
              [\<lparr>rc_id = rowid, rc_totalAmount = totalAmount, rc_tax = tax,
                rc_paymentSplit = paymentSplit, rc_discount = Some discount,
                rc_receiptDate = Some receiptDate, rc_createdBy = createdBy\<rparr>],
           receipts_seq := max (receipts_seq d) rowid\<rparr>))"

text \<open>
  \<^verbatim>\<open>db.insert(transactionItems).values({...}).run()\<close>; \<^verbatim>\<open>transaction_id\<close> references
  \<^verbatim>\<open>transactions(id)\<close> and \<^verbatim>\<open>product_id\<close> references \<^verbatim>\<open>products(id)\<close>, and the
  statement fails when either row is missing.
\<close>

definition insert_transactionItems ::
  "int \<Rightarrow> int \<Rightarrow> rat \<Rightarrow> rat \<Rightarrow> rat \<Rightarrow> rat \<Rightarrow> rat \<Rightarrow> db \<Rightarrow> (error + int) \<times> db" where
  "insert_transactionItems transactionId productId quantity unitPrice amount tax discount d =
     (if transactionId \<in> set (map tx_id (transactions d))
         \<and> productId \<in> set (map p_id (products d))
      then
        let rowid = next_rowid (map ti_id (transactionItems d)) (transactionItems_seq d) in
        (Inr rowid,
         d\<lparr>transactionItems := transactionItems d @
              [\<lparr>ti_id = rowid, ti_transactionId = transactionId, ti_productId = productId,
                ti_quantity = quantity, ti_unitPrice = unitPrice, ti_amount = amount,
                ti_tax = tax, ti_discount = discount\<rparr>],
           transactionItems_seq := rowid\<rparr>)
      else (Inl ForeignKeyConstraintFailed, d))"

text \<open>
  \<^verbatim>\<open>db.insert(productLogs).values({...}).run()\<close>; \<^verbatim>\<open>product_id\<close> references
  \<^verbatim>\<open>products(id)\<close> and \<^verbatim>\<open>receipt_id\<close> references \<^verbatim>\<open>receipts(id)\<close>.
\<close>

definition insert_productLogs ::
  "int \<Rightarrow> int \<Rightarrow> string \<Rightarrow> rat \<Rightarrow> rat \<Rightarrow> rat \<Rightarrow> rat \<Rightarrow> nat \<Rightarrow> db \<Rightarrow> (error + int) \<times> db" where
  "insert_productLogs productId receiptId type quantity amount tax discount datetime d =
     (if productId \<in> set (map p_id (products d))
         \<and> receiptId \<in> set (map rc_id (receipts d))
      then
        let rowid = next_rowid (map pl_id (productLogs d)) (productLogs_seq d) in
        (Inr rowid,
         d\<lparr>productLogs := productLogs d @
              [\<lparr>pl_id = rowid, pl_productId = productId, pl_receiptId = Some receiptId,
                pl_type = type, pl_quantity = quantity, pl_amount = amount, pl_tax = tax,
                pl_discount = discount, pl_datetime = datetime\<rparr>],
           productLogs_seq := rowid\<rparr>)
      else (Inl ForeignKeyConstraintFailed, d))"

text \<open>
  \<^verbatim>\<open>db.update(products).set({quantity, updatedAt}).where(eq(products.id, id)).run()\<close>.
\<close>

definition update_products :: "int \<Rightarrow> rat \<Rightarrow> nat \<Rightarrow> db \<Rightarrow> db" where
  "update_products productId quantity updatedAt d =
     d\<lparr>products :=
         map (\<lambda>p. if p_id p = productId
                   then p\<lparr>p_quantity := quantity, p_updatedAt := Some updatedAt\<rparr>
                   else p)
             (products d)\<rparr>"

text \<open>
  \<^verbatim>\<open>sqlite.transaction(fn)()\<close> of better-sqlite3: the body runs between BEGIN and
  COMMIT; when it throws, the transaction is rolled back and the exception goes on to
  the caller.
\<close>

definition sqlite_transaction :: "(db \<Rightarrow> (error + 'a) \<times> db) \<Rightarrow> db \<Rightarrow> (error + 'a) \<times> db" where
  "sqlite_transaction body d =
     (case body d of
        (Inl e, d') \<Rightarrow> (Inl e, d)
      | (Inr r, d') \<Rightarrow> (Inr r, d'))"

subsection \<open>Pricing\<close>

text \<open>The JavaScript \<^verbatim>\<open>x || 0\<close> on a number, and on a value that may be missing.\<close>

definition or_zero :: "rat \<Rightarrow> rat" where
  "or_zero x = (if x = 0 then 0 else x)"

definition opt_or_zero :: "rat option \<Rightarrow> rat" where
  "opt_or_zero x = (case x of None \<Rightarrow> 0 | Some v \<Rightarrow> or_zero v)"

record PaymentSplit =
  cashAmt :: "rat option"
  upiAmt :: "rat option"
  cardAmt :: "rat option"

definition splitToJson :: "PaymentSplit \<Rightarrow> split_json" where
  "splitToJson split =
     SplitJson (opt_or_zero (cashAmt split)) (opt_or_zero (upiAmt split))
       (opt_or_zero (cardAmt split))"

record item =
  it_productId :: int
  it_qty :: rat

record line =
  l_product :: product_row
  l_qty :: rat
  l_lineGross :: rat
  l_lineTax :: rat

record totals =
  t_rows :: "line list"
  t_subtotal :: rat
  t_tax :: rat
  t_discount :: rat
  t_total :: rat

text \<open>The callback of \<^verbatim>\<open>args.items.map\<close> in \<^verbatim>\<open>computeReceiptTotals\<close>.\<close>

definition price_line :: "db \<Rightarrow> item \<Rightarrow> error + line" where
  "price_line d it =
     (case find (\<lambda>p. p_id p = it_productId it) (products d) of
        None \<Rightarrow> Inl (ProductNotFound (it_productId it))
      | Some p \<Rightarrow>
          let qty = it_qty it in
          if qty \<le> 0 then Inl InvalidQuantity
          else if p_quantity p < qty then Inl (InsufficientStock (p_productName p))
          else
            let lineGross = p_mrp p * qty;
                lineTax = (lineGross * or_zero (p_gst p)) / 100
            in Inr \<lparr>l_product = p, l_qty = qty, l_lineGross = lineGross, l_lineTax = lineTax\<rparr>)"

text \<open>\<^verbatim>\<open>args.items.map\<close>: the items in order, stopping at the first exception.\<close>

fun price_lines :: "db \<Rightarrow> item list \<Rightarrow> error + line list" where
  "price_lines d [] = Inr []"
| "price_lines d (it # its) =
     (case price_line d it of
        Inl e \<Rightarrow> Inl e
      | Inr r \<Rightarrow>
          (case price_lines d its of
             Inl e \<Rightarrow> Inl e
           | Inr rs \<Rightarrow> Inr (r # rs)))"

definition computeReceiptTotals :: "db \<Rightarrow> item list \<Rightarrow> rat \<Rightarrow> error + totals" where
  "computeReceiptTotals d items discount_arg =
     (case price_lines d items of
        Inl e \<Rightarrow> Inl e
      | Inr rows \<Rightarrow>
          let subtotal = foldl (\<lambda>acc r. acc + l_lineGross r) 0 rows;
              tax = foldl (\<lambda>acc r. acc + l_lineTax r) 0 rows;
              discount = max 0 (min (or_zero discount_arg) subtotal);
              total = max 0 (subtotal - discount + tax)
          in Inr \<lparr>t_rows = rows, t_subtotal = subtotal, t_tax = tax,
                  t_discount = discount, t_total = total\<rparr>)"

subsection \<open>Checkout\<close>

record checkout_args =
  a_createdBy :: int
  a_receiptDate :: nat
  a_discount :: rat
  a_paymentSplit :: PaymentSplit
  a_items :: "item list"

record checkout_result =
  r_receiptId :: int
  r_transactionId :: int
  r_totalAmount :: rat
  r_tax :: rat
  r_discount :: rat

text \<open>The constant \<^verbatim>\<open>lineDiscount\<close> computed at the head of the loop body.\<close>

definition lineDiscount :: "rat \<Rightarrow> rat \<Rightarrow> line \<Rightarrow> rat" where
  "lineDiscount subtotal discount r =
     (if subtotal > 0 then (discount * l_lineGross r) / subtotal else 0)"

text \<open>
  The loop \<^verbatim>\<open>for (const r of rows)\<close> of \<^verbatim>\<open>createReceiptWithItems\<close>. The parameter
  \<open>now\<close> is the clock read by \<^verbatim>\<open>new Date()\<close> for \<^verbatim>\<open>updatedAt\<close>.
\<close>

fun persist_rows ::
  "int \<Rightarrow> int \<Rightarrow> rat \<Rightarrow> rat \<Rightarrow> nat \<Rightarrow> nat \<Rightarrow> line list \<Rightarrow> db \<Rightarrow> (error + unit) \<times> db" where
  "persist_rows transactionId receiptId subtotal discount receiptDate now [] d = (Inr (), d)"
| "persist_rows transactionId receiptId subtotal discount receiptDate now (r # rs) d =
     (case insert_transactionItems transactionId (p_id (l_product r)) (l_qty r)
             (p_mrp (l_product r)) (l_lineGross r) (l_lineTax r)
             (lineDiscount subtotal discount r) d of
        (Inl e, d1) \<Rightarrow> (Inl e, d1)
      | (Inr _, d1) \<Rightarrow>
          (case insert_productLogs (p_id (l_product r)) receiptId ''sale'' (l_qty r)
                  (l_lineGross r) (l_lineTax r) (lineDiscount subtotal discount r)
                  receiptDate d1 of
             (Inl e, d2) \<Rightarrow> (Inl e, d2)
           | (Inr _, d2) \<Rightarrow>
               persist_rows transactionId receiptId subtotal discount receiptDate now rs
                 (update_products (p_id (l_product r))
                    (p_quantity (l_product r) - l_qty r) now d2)))"

text \<open>The function passed to \<^verbatim>\<open>sqlite.transaction\<close> in \<^verbatim>\<open>createReceiptWithItems\<close>.\<close>

definition checkout_body :: "checkout_args \<Rightarrow> nat \<Rightarrow> db \<Rightarrow> (error + checkout_result) \<times> db" where
  "checkout_body args now d =
     (case computeReceiptTotals d (a_items args) (a_discount args) of
        Inl e \<Rightarrow> (Inl e, d)
      | Inr t \<Rightarrow>
          (case insert_transactions (t_total t) (t_tax t) (splitToJson (a_paymentSplit args))
                  (t_discount t) (a_receiptDate args) (a_createdBy args) d of
             (Inl e, d1) \<Rightarrow> (Inl e, d1)
           | (Inr transactionId, d1) \<Rightarrow>
               (case insert_receipts transactionId (t_total t) (t_tax t)
                       (splitToJson (a_paymentSplit args)) (t_discount t)
                       (a_receiptDate args) (a_createdBy args) d1 of
                  (Inl e, d2) \<Rightarrow> (Inl e, d2)
                | (Inr receiptId, d2) \<Rightarrow>
                    (case persist_rows transactionId receiptId (t_subtotal t) (t_discount t)
                            (a_receiptDate args) now (t_rows t) d2 of
                       (Inl e, d3) \<Rightarrow> (Inl e, d3)
                     | (Inr _, d3) \<Rightarrow>
                         (Inr \<lparr>r_receiptId = receiptId, r_transactionId = transactionId,
                               r_totalAmount = t_total t, r_tax = t_tax t,
                               r_discount = t_discount t\<rparr>, d3)))))"

definition createReceiptWithItems ::
  "checkout_args \<Rightarrow> nat \<Rightarrow> db \<Rightarrow> (error + checkout_result) \<times> db" where
  "createReceiptWithItems args now d = sqlite_transaction (checkout_body args now) d"

text \<open>
  The handler of \<^verbatim>\<open>pos:checkout\<close>: it reads the clock for the receipt date, replaces a
  missing discount by 0 and passes the request on; \<^verbatim>\<open>Inl\<close> stands for the reply
  \<^verbatim>\<open>fail(e)\<close> and \<^verbatim>\<open>Inr\<close> for \<^verbatim>\<open>ok(res)\<close>.
\<close>

record checkout_request =
  rq_createdBy :: int
  rq_discount :: "rat option"
  rq_paymentSplit :: PaymentSplit
  rq_items :: "item list"

definition pos_checkout :: "checkout_request \<Rightarrow> nat \<Rightarrow> db \<Rightarrow> (error + checkout_result) \<times> db" where
  "pos_checkout rq now d =
     createReceiptWithItems
       \<lparr>a_createdBy = rq_createdBy rq, a_receiptDate = now,
        a_discount = opt_or_zero (rq_discount rq),
        a_paymentSplit = rq_paymentSplit rq, a_items = rq_items rq\<rparr> now d"

subsection \<open>Devices for the proofs\<close>

text \<open>
  The foreign keys that the loop relies on, the rows that one pass of the loop writes,
  and the store after one pass and after all passes when no insert fails.
\<close>

definition fk_ok :: "int \<Rightarrow> int \<Rightarrow> line list \<Rightarrow> db \<Rightarrow> bool" where
  "fk_ok transactionId receiptId rows d \<longleftrightarrow>
     transactionId \<in> set (map tx_id (transactions d)) \<and>
     receiptId \<in> set (map rc_id (receipts d)) \<and>
     (\<forall>r \<in> set rows. p_id (l_product r) \<in> set (map p_id (products d)))"

definition item_of :: "int \<Rightarrow> rat \<Rightarrow> rat \<Rightarrow> line \<Rightarrow> int \<Rightarrow> transaction_item_row" where
  "item_of transactionId subtotal discount r rowid =
     \<lparr>ti_id = rowid, ti_transactionId = transactionId, ti_productId = p_id (l_product r),
      ti_quantity = l_qty r, ti_unitPrice = p_mrp (l_product r), ti_amount = l_lineGross r,
      ti_tax = l_lineTax r, ti_discount = lineDiscount subtotal discount r\<rparr>"

definition log_of :: "int \<Rightarrow> rat \<Rightarrow> rat \<Rightarrow> nat \<Rightarrow> line \<Rightarrow> int \<Rightarrow> product_log_row" where
  "log_of receiptId subtotal discount receiptDate r rowid =
     \<lparr>pl_id = rowid, pl_productId = p_id (l_product r), pl_receiptId = Some receiptId,
      pl_type = ''sale'', pl_quantity = l_qty r, pl_amount = l_lineGross r,
      pl_tax = l_lineTax r, pl_discount = lineDiscount subtotal discount r,
      pl_datetime = receiptDate\<rparr>"

definition persist_row ::
  "int \<Rightarrow> int \<Rightarrow> rat \<Rightarrow> rat \<Rightarrow> nat \<Rightarrow> nat \<Rightarrow> line \<Rightarrow> db \<Rightarrow> db" where
  "persist_row transactionId receiptId subtotal discount receiptDate now r d =
     update_products (p_id (l_product r)) (p_quantity (l_product r) - l_qty r) now
       (d\<lparr>transactionItems := transactionItems d @
            [item_of transactionId subtotal discount r
               (next_rowid (map ti_id (transactionItems d)) (transactionItems_seq d))],
          transactionItems_seq :=
            next_rowid (map ti_id (transactionItems d)) (transactionItems_seq d),
          productLogs := productLogs d @
            [log_of receiptId subtotal discount receiptDate r
               (next_rowid (map pl_id (productLogs d)) (productLogs_seq d))],
          productLogs_seq := next_rowid (map pl_id (productLogs d)) (productLogs_seq d)\<rparr>)"

definition persist_all ::
  "int \<Rightarrow> int \<Rightarrow> rat \<Rightarrow> rat \<Rightarrow> nat \<Rightarrow> nat \<Rightarrow> line list \<Rightarrow> db \<Rightarrow> db" where
  "persist_all transactionId receiptId subtotal discount receiptDate now rows d =
     foldl (\<lambda>d r. persist_row transactionId receiptId subtotal discount receiptDate now r d)
       d rows"

definition head_db :: "checkout_args \<Rightarrow> totals \<Rightarrow> db \<Rightarrow> db" where
  "head_db args t d =
     snd (insert_receipts (next_rowid (map tx_id (transactions d)) (transactions_seq d))
            (t_total t) (t_tax t) (splitToJson (a_paymentSplit args)) (t_discount t)
            (a_receiptDate args) (a_createdBy args)
            (snd (insert_transactions (t_total t) (t_tax t)
                    (splitToJson (a_paymentSplit args)) (t_discount t)
                    (a_receiptDate args) (a_createdBy args) d)))"

text \<open>The effect of one pass of the loop on a single product row.\<close>

definition sell :: "nat \<Rightarrow> line \<Rightarrow> product_row \<Rightarrow> product_row" where
  "sell now r p =
     (if p_id p = p_id (l_product r)
      then p\<lparr>p_quantity := p_quantity (l_product r) - l_qty r, p_updatedAt := Some now\<rparr>
      else p)"

subsection \<open>Example stores\<close>

text \<open>
  A small store: an active and a deactivated user, two products, no sales yet, and the
  negative-stock setting switched on.
\<close>

definition rice :: product_row where
  "rice = \<lparr>p_id = 1, p_productName = ''Rice'', p_quantity = 10, p_mrp = 150, p_gst = 0,
           p_updatedAt = None\<rparr>"

definition soap :: product_row where
  "soap = \<lparr>p_id = 2, p_productName = ''Soap'', p_quantity = 3, p_mrp = 50, p_gst = 12,
           p_updatedAt = None\<rparr>"

definition shop_db :: db where
  "shop_db =
     \<lparr>users = [\<lparr>u_id = 1, u_name = ''admin'', u_role = ''admin'', u_active = True\<rparr>,
               \<lparr>u_id = 2, u_name = ''former'', u_role = ''staff'', u_active = False\<rparr>],
      products = [rice, soap],
      transactions = [], transactions_seq = 0,
      receipts = [], receipts_seq = 0,
      transactionItems = [], transactionItems_seq = 0,
      productLogs = [], productLogs_seq = 0,
      storeSettings = [\<lparr>ss_id = 1, ss_userId = Some 1, ss_allowNegativeStock = True\<rparr>]\<rparr>"

definition shop_split :: PaymentSplit where
  "shop_split = \<lparr>cashAmt = Some 100, upiAmt = None, cardAmt = Some 0\<rparr>"

text \<open>
  The same store after the handler \<^verbatim>\<open>receipts:add\<close> has stored a receipt on its own:
  the receipts table holds id 1 while the transactions table is still empty.
\<close>

definition legacy_db :: db where
  "legacy_db =
     shop_db\<lparr>receipts :=
               [\<lparr>rc_id = 1, rc_totalAmount = 40, rc_tax = 0,
                 rc_paymentSplit = SplitJson 40 0 0, rc_discount = Some 0,
                 rc_receiptDate = Some 5, rc_createdBy = 1\<rparr>],
             receipts_seq := 1\<rparr>"

definition checkout_of :: "int \<Rightarrow> rat \<Rightarrow> item list \<Rightarrow> checkout_args" where
  "checkout_of createdBy discount items =
     \<lparr>a_createdBy = createdBy, a_receiptDate = 7, a_discount = discount,
      a_paymentSplit = shop_split, a_items = items\<rparr>"

text \<open>A store that carries a product with a negative unit price.\<close>

definition refund_db :: db where
  "refund_db =
     shop_db\<lparr>products :=
               [\<lparr>p_id = 3, p_productName = ''Bottle deposit'', p_quantity = 5, p_mrp = - 10,
                 p_gst = 0, p_updatedAt = None\<rparr>]\<rparr>"

text \<open>
  The sale of one unit of each product of the small store with a requested discount
  of 20, and the result that the checkout returns for it.
\<close>

definition sale_args :: checkout_args where
  "sale_args = checkout_of 1 20 [\<lparr>it_productId = 1, it_qty = 1\<rparr>, \<lparr>it_productId = 2, it_qty = 1\<rparr>]"

definition sale_result :: checkout_result where
  "sale_result =
     \<lparr>r_receiptId = 1, r_transactionId = 1, r_totalAmount = 186, r_tax = 6, r_discount = 20\<rparr>"

section \<open>Lemmas\<close>

subsection \<open>Numbers and row ids\<close>

lemma or_zero_id: "or_zero x = x"
  by (simp add: or_zero_def)

lemma foldl_add_sum_list:
  fixes a :: rat
  shows "foldl (\<lambda>acc r. acc + f r) a rs = a + sum_list (map f rs)"
  by (induction rs arbitrary: a) (simp_all add: add.assoc)

lemma next_rowid_fresh: "i \<in> set ids \<Longrightarrow> i < next_rowid ids seq"
proof -
  have "i \<in> set ids \<Longrightarrow> i \<le> foldr max ids 0"
    by (induction ids) auto
  then show "i \<in> set ids \<Longrightarrow> i < next_rowid ids seq"
    by (simp add: next_rowid_def)
qed

lemma next_rowid_notin: "next_rowid ids seq \<notin> set ids"
  using next_rowid_fresh [of "next_rowid ids seq" ids seq] by auto

subsection \<open>Pricing\<close>

text \<open>What a priced line says about its item and about the product it was priced from.\<close>

lemma price_line_Inr:
  assumes "price_line d it = Inr r"
  shows "find (\<lambda>p. p_id p = it_productId it) (products d) = Some (l_product r)"
    and "l_qty r = it_qty it"
    and "0 < it_qty it"
    and "it_qty it \<le> p_quantity (l_product r)"
    and "l_lineGross r = p_mrp (l_product r) * it_qty it"
    and "l_lineTax r = l_lineGross r * p_gst (l_product r) / 100"
  using assms
  by (auto simp: price_line_def Let_def or_zero_id split: option.splits if_splits)

lemma price_line_product:
  assumes "price_line d it = Inr r"
  shows "p_id (l_product r) = it_productId it" and "l_product r \<in> set (products d)"
  using price_line_Inr(1) [OF assms] by (auto simp: find_Some_iff)

lemma price_lines_Inr:
  "price_lines d its = Inr rs \<Longrightarrow> list_all2 (\<lambda>it r. price_line d it = Inr r) its rs"
  by (induction its arbitrary: rs) (auto split: sum.splits)

lemma price_lines_append_fail:
  "price_lines d pre = Inr rs \<Longrightarrow> price_line d it = Inl e \<Longrightarrow>
   price_lines d (pre @ it # post) = Inl e"
  by (induction pre arbitrary: rs) (auto split: sum.splits)

subsection \<open>The loop over the priced lines\<close>

text \<open>
  While the foreign keys hold, no insert of the loop fails, and a pass of the loop keeps
  them: the loop is the iteration of \<open>persist_row\<close>.
\<close>

lemma persist_rows_step:
  assumes "fk_ok transactionId receiptId (r # rs) d"
  shows "persist_rows transactionId receiptId subtotal discount receiptDate now (r # rs) d =
         persist_rows transactionId receiptId subtotal discount receiptDate now rs
           (persist_row transactionId receiptId subtotal discount receiptDate now r d)"
  using assms
  by (simp add: fk_ok_def insert_transactionItems_def insert_productLogs_def Let_def
      persist_row_def item_of_def log_of_def update_products_def)

lemma persist_row_fk_ok:
  assumes "fk_ok transactionId receiptId (r # rs) d"
  shows "fk_ok transactionId receiptId rs
           (persist_row transactionId receiptId subtotal discount receiptDate now r d)"
proof -
  have "map p_id (products (persist_row transactionId receiptId subtotal discount
          receiptDate now r d)) = map p_id (products d)"
    by (simp add: persist_row_def update_products_def comp_def)
  then show ?thesis
    using assms by (simp add: fk_ok_def persist_row_def update_products_def)
qed

lemma persist_all_Nil: "persist_all tid rid sub disc date now [] d = d"
  by (simp add: persist_all_def)

lemma persist_all_Cons:
  "persist_all tid rid sub disc date now (r # rs) d =
   persist_all tid rid sub disc date now rs (persist_row tid rid sub disc date now r d)"
  by (simp add: persist_all_def)

lemma persist_rows_eq:
  "fk_ok tid rid rows d \<Longrightarrow>
   persist_rows tid rid sub disc date now rows d =
     (Inr (), persist_all tid rid sub disc date now rows d)"
proof (induction rows arbitrary: d)
  case Nil
  show ?case by (simp add: persist_all_Nil)
next
  case (Cons r rs)
  show ?case
    using Cons.IH [OF persist_row_fk_ok [OF Cons.prems]] persist_rows_step [OF Cons.prems]
    by (simp add: persist_all_Cons)
qed

lemma persist_all_frame:
  "users (persist_all tid rid sub disc date now rows d) = users d"
  "transactions (persist_all tid rid sub disc date now rows d) = transactions d"
  "transactions_seq (persist_all tid rid sub disc date now rows d) = transactions_seq d"
  "receipts (persist_all tid rid sub disc date now rows d) = receipts d"
  "receipts_seq (persist_all tid rid sub disc date now rows d) = receipts_seq d"
  "storeSettings (persist_all tid rid sub disc date now rows d) = storeSettings d"
  by (induction rows arbitrary: d)
     (simp_all add: persist_all_Nil persist_all_Cons persist_row_def update_products_def)



subsection \<open>The body of the transaction\<close>

text \<open>
  The four ways in which the body can end: a pricing error, an unknown user, a receipt id
  that is taken, and success.
\<close>

lemma computeReceiptTotals_rows:
  assumes "computeReceiptTotals d its disc = Inr t"
  shows "price_lines d its = Inr (t_rows t)"
  using assms by (auto simp: computeReceiptTotals_def Let_def split: sum.splits)

lemma computeReceiptTotals_products:
  assumes "computeReceiptTotals d its disc = Inr t" and "r \<in> set (t_rows t)"
  shows "l_product r \<in> set (products d)"
proof -
  have "list_all2 (\<lambda>it r. price_line d it = Inr r) its (t_rows t)"
    using computeReceiptTotals_rows [OF assms(1)] by (rule price_lines_Inr)
  then obtain it where "price_line d it = Inr r"
    using assms(2) by (auto simp: list_all2_conv_all_nth in_set_conv_nth)
  then show ?thesis by (rule price_line_product(2))
qed

lemma checkout_body_pricing_error:
  "computeReceiptTotals d (a_items args) (a_discount args) = Inl e \<Longrightarrow>
   checkout_body args now d = (Inl e, d)"
  by (simp add: checkout_body_def)

lemma checkout_body_no_user:
  "computeReceiptTotals d (a_items args) (a_discount args) = Inr t \<Longrightarrow>
   a_createdBy args \<notin> set (map u_id (users d)) \<Longrightarrow>
   checkout_body args now d = (Inl ForeignKeyConstraintFailed, d)"
  by (simp add: checkout_body_def insert_transactions_def)

lemma checkout_body_receipt_clash:
  "computeReceiptTotals d (a_items args) (a_discount args) = Inr t \<Longrightarrow>
   a_createdBy args \<in> set (map u_id (users d)) \<Longrightarrow>
   next_rowid (map tx_id (transactions d)) (transactions_seq d) \<in> set (map rc_id (receipts d)) \<Longrightarrow>
   fst (checkout_body args now d) = Inl PrimaryKeyConstraintFailed"
  by (simp add: checkout_body_def insert_transactions_def insert_receipts_def Let_def)

lemma checkout_body_success:
  assumes t: "computeReceiptTotals d (a_items args) (a_discount args) = Inr t"
    and u: "a_createdBy args \<in> set (map u_id (users d))"
    and f: "next_rowid (map tx_id (transactions d)) (transactions_seq d)
              \<notin> set (map rc_id (receipts d))"
  shows "checkout_body args now d =
     (Inr \<lparr>r_receiptId = next_rowid (map tx_id (transactions d)) (transactions_seq d),
           r_transactionId = next_rowid (map tx_id (transactions d)) (transactions_seq d),
           r_totalAmount = t_total t, r_tax = t_tax t, r_discount = t_discount t\<rparr>,
      persist_all (next_rowid (map tx_id (transactions d)) (transactions_seq d))
        (next_rowid (map tx_id (transactions d)) (transactions_seq d))
        (t_subtotal t) (t_discount t) (a_receiptDate args) now (t_rows t)
        (head_db args t d))"
proof -
  let ?tid = "next_rowid (map tx_id (transactions d)) (transactions_seq d)"
  have "fk_ok ?tid ?tid (t_rows t) (head_db args t d)"
    using u f computeReceiptTotals_products [OF t]
    by (auto simp: fk_ok_def head_db_def insert_transactions_def insert_receipts_def Let_def)
  from persist_rows_eq [OF this] show ?thesis
    using t u f
    by (simp add: checkout_body_def head_db_def insert_transactions_def insert_receipts_def
        Let_def)
qed

subsection \<open>The checkout as a whole\<close>

lemma sqlite_transaction_fst: "fst (sqlite_transaction body d) = fst (body d)"
  by (cases "body d") (auto simp: sqlite_transaction_def split: sum.splits)

lemma checkout_body_fst_cases:
  "fst (checkout_body args now d) =
     (case computeReceiptTotals d (a_items args) (a_discount args) of
        Inl e \<Rightarrow> Inl e
      | Inr t \<Rightarrow>
          if a_createdBy args \<notin> set (map u_id (users d)) then Inl ForeignKeyConstraintFailed
          else if next_rowid (map tx_id (transactions d)) (transactions_seq d)
                    \<in> set (map rc_id (receipts d))
          then Inl PrimaryKeyConstraintFailed
          else Inr \<lparr>r_receiptId = next_rowid (map tx_id (transactions d)) (transactions_seq d),
                    r_transactionId = next_rowid (map tx_id (transactions d)) (transactions_seq d),
                    r_totalAmount = t_total t, r_tax = t_tax t, r_discount = t_discount t\<rparr>)"
proof (cases "computeReceiptTotals d (a_items args) (a_discount args)")
  case (Inl e)
  then show ?thesis by (simp add: checkout_body_pricing_error)
next
  case (Inr t)
  show ?thesis
  proof (cases "a_createdBy args \<in> set (map u_id (users d))")
    case False
    with Inr show ?thesis using checkout_body_no_user [OF Inr] by simp
  next
    case True
    show ?thesis
    proof (cases "next_rowid (map tx_id (transactions d)) (transactions_seq d)
                    \<in> set (map rc_id (receipts d))")
      case True
      with Inr \<open>a_createdBy args \<in> set (map u_id (users d))\<close> show ?thesis
        using checkout_body_receipt_clash [OF Inr] by simp
    next
      case False
      with Inr True show ?thesis
        using checkout_body_success [OF Inr True False] by simp
    qed
  qed
qed

lemma createReceiptWithItems_Inr:
  assumes "createReceiptWithItems args now d = (Inr res, d')"
  obtains t where
    "computeReceiptTotals d (a_items args) (a_discount args) = Inr t"
    "a_createdBy args \<in> set (map u_id (users d))"
    "next_rowid (map tx_id (transactions d)) (transactions_seq d) \<notin> set (map rc_id (receipts d))"
    "res = \<lparr>r_receiptId = next_rowid (map tx_id (transactions d)) (transactions_seq d),
            r_transactionId = next_rowid (map tx_id (transactions d)) (transactions_seq d),
            r_totalAmount = t_total t, r_tax = t_tax t, r_discount = t_discount t\<rparr>"
    "d' = persist_all (next_rowid (map tx_id (transactions d)) (transactions_seq d))
            (next_rowid (map tx_id (transactions d)) (transactions_seq d))
            (t_subtotal t) (t_discount t) (a_receiptDate args) now (t_rows t)
            (head_db args t d)"
proof -
  have f: "fst (checkout_body args now d) = Inr res"
    using assms sqlite_transaction_fst [of "checkout_body args now" d]
    by (simp add: createReceiptWithItems_def)
  then obtain t where t: "computeReceiptTotals d (a_items args) (a_discount args) = Inr t"
    by (cases "computeReceiptTotals d (a_items args) (a_discount args)")
       (simp_all add: checkout_body_fst_cases)
  have u: "a_createdBy args \<in> set (map u_id (users d))"
    using f t by (auto simp: checkout_body_fst_cases split: if_splits)
  have c: "next_rowid (map tx_id (transactions d)) (transactions_seq d)
             \<notin> set (map rc_id (receipts d))"
    using f t u by (auto simp: checkout_body_fst_cases split: if_splits)
  have b: "checkout_body args now d = (Inr res, d')"
    using assms by (auto simp: createReceiptWithItems_def sqlite_transaction_def
        split: prod.splits sum.splits)
  show thesis
    using that [OF t u c] b checkout_body_success [OF t u c, of now] by simp
qed

subsection \<open>Totals, rows written and discounts\<close>

lemma computeReceiptTotals_Inr:
  assumes "computeReceiptTotals d its disc = Inr t"
  shows "t_subtotal t = sum_list (map l_lineGross (t_rows t))"
    and "t_tax t = sum_list (map l_lineTax (t_rows t))"
    and "t_discount t = max 0 (min disc (t_subtotal t))"
    and "t_total t = max 0 (t_subtotal t - t_discount t + t_tax t)"
  using assms
  by (auto simp: computeReceiptTotals_def Let_def foldl_add_sum_list or_zero_id
      split: sum.splits)

lemma head_db_simps:
  assumes "a_createdBy args \<in> set (map u_id (users d))"
    and "next_rowid (map tx_id (transactions d)) (transactions_seq d)
           \<notin> set (map rc_id (receipts d))"
  shows "transactions (head_db args t d) = transactions d @
           [\<lparr>tx_id = next_rowid (map tx_id (transactions d)) (transactions_seq d),
             tx_finalAmount = t_total t, tx_tax = t_tax t,
             tx_paymentSplit = splitToJson (a_paymentSplit args),
             tx_discount = Some (t_discount t),
             tx_transactionDate = a_receiptDate args, tx_createdBy = a_createdBy args\<rparr>]"
    and "receipts (head_db args t d) = receipts d @
           [\<lparr>rc_id = next_rowid (map tx_id (transactions d)) (transactions_seq d),
             rc_totalAmount = t_total t, rc_tax = t_tax t,
             rc_paymentSplit = splitToJson (a_paymentSplit args),
             rc_discount = Some (t_discount t),
             rc_receiptDate = Some (a_receiptDate args), rc_createdBy = a_createdBy args\<rparr>]"
    and "transactionItems (head_db args t d) = transactionItems d"
    and "productLogs (head_db args t d) = productLogs d"
    and "products (head_db args t d) = products d"
    and "users (head_db args t d) = users d"
    and "storeSettings (head_db args t d) = storeSettings d"
  using assms
  by (simp_all add: head_db_def insert_transactions_def insert_receipts_def Let_def)





lemma find_append_fresh:
  "\<forall>y \<in> set xs. \<not> P y \<Longrightarrow> P x \<Longrightarrow> find P (xs @ [x]) = Some x"
  by (induction xs) auto

lemma computeReceiptTotals_Inl_iff:
  "computeReceiptTotals d its x = Inl e \<longleftrightarrow> price_lines d its = Inl e"
  by (auto simp: computeReceiptTotals_def Let_def split: sum.splits)

lemma createReceiptWithItems_fst:
  "fst (createReceiptWithItems args now d) = fst (checkout_body args now d)"
  by (simp add: createReceiptWithItems_def sqlite_transaction_fst)

lemma checkout_error_iff:
  "fst (createReceiptWithItems args now d) = Inl e \<longleftrightarrow>
     (case price_lines d (a_items args) of
        Inl e' \<Rightarrow> e = e'
      | Inr rs \<Rightarrow>
          if a_createdBy args \<notin> set (map u_id (users d))
          then e = ForeignKeyConstraintFailed
          else next_rowid (map tx_id (transactions d)) (transactions_seq d)
                 \<in> set (map rc_id (receipts d)) \<and> e = PrimaryKeyConstraintFailed)"
proof (cases "price_lines d (a_items args)")
  case (Inl e')
  then have "computeReceiptTotals d (a_items args) (a_discount args) = Inl e'"
    by (simp add: computeReceiptTotals_Inl_iff)
  then show ?thesis
    using Inl by (auto simp: createReceiptWithItems_fst checkout_body_fst_cases)
next
  case (Inr rs)
  then obtain t where "computeReceiptTotals d (a_items args) (a_discount args) = Inr t"
    by (simp add: computeReceiptTotals_def Let_def)
  then show ?thesis
    using Inr by (auto simp: createReceiptWithItems_fst checkout_body_fst_cases)
qed

lemma price_line_users: "price_line (d\<lparr>users := us\<rparr>) it = price_line d it"
  by (simp add: price_line_def)

lemma price_lines_users: "price_lines (d\<lparr>users := us\<rparr>) its = price_lines d its"
  by (induction its) (simp_all add: price_line_users cong: sum.case_cong)

lemma price_line_storeSettings: "price_line (d\<lparr>storeSettings := ss\<rparr>) it = price_line d it"
  by (simp add: price_line_def)

lemma price_lines_storeSettings:
  "price_lines (d\<lparr>storeSettings := ss\<rparr>) its = price_lines d its"
  by (induction its) (simp_all add: price_line_storeSettings cong: sum.case_cong)

lemma sale_succeeds:
  "createReceiptWithItems sale_args 9 shop_db =
     (Inr sale_result, snd (createReceiptWithItems sale_args 9 shop_db))"
proof -
  have "fst (createReceiptWithItems sale_args 9 shop_db) = Inr sale_result"
    by code_simp
  then show ?thesis by (simp add: prod_eq_iff)
qed

subsection \<open>Stock\<close>

text \<open>
  The products after the loop. When the items of a request name pairwise distinct
  products, every sold product ends at its quantity before the checkout less the quantity
  sold, and every other product is as it was.
\<close>

lemma sell_id: "p_id (sell now r p) = p_id p"
  by (simp add: sell_def)

lemma persist_row_products:
  "products (persist_row tid rid sub disc date now r d) = map (sell now r) (products d)"
  by (simp add: persist_row_def update_products_def sell_def)

lemma persist_all_products:
  "products (persist_all tid rid sub disc date now rows d) =
     map (\<lambda>p. foldl (\<lambda>p r. sell now r p) p rows) (products d)"
  by (induction rows arbitrary: d)
     (simp_all add: persist_all_Nil persist_all_Cons persist_row_products comp_def)

lemma foldl_sell_id: "p_id (foldl (\<lambda>p r. sell now r p) p rows) = p_id p"
  by (induction rows arbitrary: p) (simp_all add: sell_id)

lemma find_map_same_id:
  assumes "\<And>p. p_id (f p) = p_id p"
  shows "find (\<lambda>p. p_id p = k) (map f ps) = map_option f (find (\<lambda>p. p_id p = k) ps)"
  by (induction ps) (simp_all add: assms)

lemma foldl_sell_other:
  "p_id p \<notin> set (map (\<lambda>r. p_id (l_product r)) rows) \<Longrightarrow>
   foldl (\<lambda>p r. sell now r p) p rows = p"
  by (induction rows arbitrary: p) (auto simp: sell_def)

lemma foldl_sell_once:
  assumes "distinct (map (\<lambda>r. p_id (l_product r)) rows)"
    and "r \<in> set rows" and "p_id p = p_id (l_product r)"
  shows "p_quantity (foldl (\<lambda>p r. sell now r p) p rows) = p_quantity (l_product r) - l_qty r"
  using assms
proof (induction rows arbitrary: p)
  case Nil
  then show ?case by simp
next
  case (Cons r' rs)
  show ?case
  proof (cases "r' = r")
    case True
    have "p_id (sell now r p) \<notin> set (map (\<lambda>r. p_id (l_product r)) rs)"
      using Cons.prems True by (simp add: sell_id)
    then have "foldl (\<lambda>p r. sell now r p) (sell now r p) rs = sell now r p"
      by (rule foldl_sell_other)
    then show ?thesis
      using True Cons.prems(3) by (simp add: sell_def)
  next
    case False
    then have "r \<in> set rs" using Cons.prems by simp
    then have "p_id (l_product r') \<noteq> p_id (l_product r)"
      using Cons.prems(1) by auto
    then have "sell now r' p = p"
      using Cons.prems(3) by (simp add: sell_def)
    then show ?thesis
      using Cons.IH [of p] Cons.prems \<open>r \<in> set rs\<close> by simp
  qed
qed

lemma list_all2_left:
  "list_all2 P xs ys \<Longrightarrow> x \<in> set xs \<Longrightarrow> \<exists>y \<in> set ys. P x y"
  by (induction rule: list_all2_induct) auto

lemma price_lines_ids:
  "price_lines d its = Inr rs \<Longrightarrow> map (\<lambda>r. p_id (l_product r)) rs = map it_productId its"
  by (induction its arbitrary: rs) (auto split: sum.splits simp: price_line_product)

lemma stock_conservation_distinct:
  assumes ok: "createReceiptWithItems args now d = (Inr res, d')"
    and dist: "distinct (map it_productId (a_items args))"
  shows "\<forall>it \<in> set (a_items args).
           \<exists>p p'. find (\<lambda>p. p_id p = it_productId it) (products d) = Some p \<and>
                  find (\<lambda>p. p_id p = it_productId it) (products d') = Some p' \<and>
                  p_quantity p' = p_quantity p - it_qty it"
    and "\<forall>k. k \<notin> set (map it_productId (a_items args)) \<longrightarrow>
           find (\<lambda>p. p_id p = k) (products d') = find (\<lambda>p. p_id p = k) (products d)"
proof -
  let ?tid = "next_rowid (map tx_id (transactions d)) (transactions_seq d)"
  from ok obtain t where
    t: "computeReceiptTotals d (a_items args) (a_discount args) = Inr t"
    and u: "a_createdBy args \<in> set (map u_id (users d))"
    and f: "?tid \<notin> set (map rc_id (receipts d))"
    and d': "d' = persist_all ?tid ?tid (t_subtotal t) (t_discount t) (a_receiptDate args)
                    now (t_rows t) (head_db args t d)"
    by (rule createReceiptWithItems_Inr)
  have pl: "price_lines d (a_items args) = Inr (t_rows t)"
    by (rule computeReceiptTotals_rows [OF t])
  have ids: "map (\<lambda>r. p_id (l_product r)) (t_rows t) = map it_productId (a_items args)"
    by (rule price_lines_ids [OF pl])
  have ps: "products d' = map (\<lambda>p. foldl (\<lambda>p r. sell now r p) p (t_rows t)) (products d)"
    by (simp add: d' persist_all_products head_db_simps [OF u f])
  have fnd: "find (\<lambda>p. p_id p = k) (products d') =
        map_option (\<lambda>p. foldl (\<lambda>p r. sell now r p) p (t_rows t))
          (find (\<lambda>p. p_id p = k) (products d))" for k
    unfolding ps by (rule find_map_same_id) (rule foldl_sell_id)
  show "\<forall>it \<in> set (a_items args).
           \<exists>p p'. find (\<lambda>p. p_id p = it_productId it) (products d) = Some p \<and>
                  find (\<lambda>p. p_id p = it_productId it) (products d') = Some p' \<and>
                  p_quantity p' = p_quantity p - it_qty it"
  proof
    fix it assume "it \<in> set (a_items args)"
    then obtain r where r: "r \<in> set (t_rows t)" and pr: "price_line d it = Inr r"
      using list_all2_left [OF price_lines_Inr [OF pl]] by blast
    have fp: "find (\<lambda>p. p_id p = it_productId it) (products d) = Some (l_product r)"
      and q: "l_qty r = it_qty it"
      using price_line_Inr [OF pr] by simp_all
    have "p_quantity (foldl (\<lambda>p r. sell now r p) (l_product r) (t_rows t)) =
            p_quantity (l_product r) - l_qty r"
      using dist r by (intro foldl_sell_once) (simp_all add: ids)
    then show "\<exists>p p'. find (\<lambda>p. p_id p = it_productId it) (products d) = Some p \<and>
                  find (\<lambda>p. p_id p = it_productId it) (products d') = Some p' \<and>
                  p_quantity p' = p_quantity p - it_qty it"
      using fp q by (simp add: fnd)
  qed
  show "\<forall>k. k \<notin> set (map it_productId (a_items args)) \<longrightarrow>
           find (\<lambda>p. p_id p = k) (products d') = find (\<lambda>p. p_id p = k) (products d)"
  proof (intro allI impI)
    fix k assume k: "k \<notin> set (map it_productId (a_items args))"
    show "find (\<lambda>p. p_id p = k) (products d') = find (\<lambda>p. p_id p = k) (products d)"
    proof (cases "find (\<lambda>p. p_id p = k) (products d)")
      case None
      then show ?thesis by (simp add: fnd)
    next
      case (Some p)
      then have "p_id p = k" by (auto simp: find_Some_iff)
      then have "foldl (\<lambda>p r. sell now r p) p (t_rows t) = p"
        using k by (intro foldl_sell_other) (simp add: ids)
      then show ?thesis using Some by (simp add: fnd)
    qed
  qed
qed

section \<open>The claims\<close>

text \<open>
  C1 (atomicity of checkout). Whenever \<^verbatim>\<open>createReceiptWithItems\<close> fails, with any
  error, the store afterwards is the store before the call: no new row in
  \<^verbatim>\<open>transactions\<close>, \<^verbatim>\<open>receipts\<close>, \<^verbatim>\<open>transaction_items\<close> or \<^verbatim>\<open>product_logs\<close>, and
  every product quantity as it was. An error of the pricing stage
  (\<^verbatim>\<open>computeReceiptTotals\<close>) leaves the body of the transaction before its first write,
  so that there is nothing to roll back.
\<close>

theorem checkout_atomic:
  "(createReceiptWithItems args now d = (Inl e, d') \<longrightarrow>
      d' = d \<and> transactions d' = transactions d \<and> receipts d' = receipts d \<and>
      transactionItems d' = transactionItems d \<and> productLogs d' = productLogs d \<and>
      map p_quantity (products d') = map p_quantity (products d)) \<and>
   (computeReceiptTotals d (a_items args) (a_discount args) = Inl e \<longrightarrow>
      checkout_body args now d = (Inl e, d) \<and>
      createReceiptWithItems args now d = (Inl e, d))"
proof -
  have "d' = d" if "createReceiptWithItems args now d = (Inl e, d')"
    using that
    by (auto simp: createReceiptWithItems_def sqlite_transaction_def
        split: prod.splits sum.splits)
  moreover have "checkout_body args now d = (Inl e, d) \<and>
      createReceiptWithItems args now d = (Inl e, d)"
    if "computeReceiptTotals d (a_items args) (a_discount args) = Inl e"
    using checkout_body_pricing_error [OF that, of now]
    by (simp add: createReceiptWithItems_def sqlite_transaction_def)
  ultimately show ?thesis by blast
qed

text \<open>
  Two failing checkouts. On the store with a legacy receipt the body has already inserted
  the transactions row when the insert into receipts hits the primary key; the roll-back
  removes it. On the small store the second item asks for 5 units of a product with 3 on
  hand, and the body stops before any insert.
\<close>

theorem checkout_atomic_witness:
  "createReceiptWithItems (checkout_of 1 0 [\<lparr>it_productId = 1, it_qty = 1\<rparr>]) 9 legacy_db =
     (Inl PrimaryKeyConstraintFailed, legacy_db) \<and>
   length (transactions (snd (checkout_body
     (checkout_of 1 0 [\<lparr>it_productId = 1, it_qty = 1\<rparr>]) 9 legacy_db))) = 1 \<and>
   computeReceiptTotals shop_db
     [\<lparr>it_productId = 1, it_qty = 1\<rparr>, \<lparr>it_productId = 2, it_qty = 5\<rparr>] 0 =
     Inl (InsufficientStock ''Soap'') \<and>
   createReceiptWithItems (checkout_of 1 0
     [\<lparr>it_productId = 1, it_qty = 1\<rparr>, \<lparr>it_productId = 2, it_qty = 5\<rparr>]) 9 shop_db =
     (Inl (InsufficientStock ''Soap''), shop_db)"
proof -
  have a: "fst (createReceiptWithItems (checkout_of 1 0 [\<lparr>it_productId = 1, it_qty = 1\<rparr>])
             9 legacy_db) = Inl PrimaryKeyConstraintFailed"
    by code_simp
  have b: "length (transactions (snd (checkout_body
             (checkout_of 1 0 [\<lparr>it_productId = 1, it_qty = 1\<rparr>]) 9 legacy_db))) = 1"
    by code_simp
  have c: "computeReceiptTotals shop_db
             (a_items (checkout_of 1 0
                [\<lparr>it_productId = 1, it_qty = 1\<rparr>, \<lparr>it_productId = 2, it_qty = 5\<rparr>]))
             (a_discount (checkout_of 1 0
                [\<lparr>it_productId = 1, it_qty = 1\<rparr>, \<lparr>it_productId = 2, it_qty = 5\<rparr>])) =
           Inl (InsufficientStock ''Soap'')"
    by code_simp
  have a': "createReceiptWithItems (checkout_of 1 0 [\<lparr>it_productId = 1, it_qty = 1\<rparr>])
              9 legacy_db =
            (Inl PrimaryKeyConstraintFailed,
             snd (createReceiptWithItems (checkout_of 1 0 [\<lparr>it_productId = 1, it_qty = 1\<rparr>])
                    9 legacy_db))"
    using a by (simp add: prod_eq_iff)
  show ?thesis
    using checkout_atomic
            [of "checkout_of 1 0 [\<lparr>it_productId = 1, it_qty = 1\<rparr>]" 9 legacy_db
                PrimaryKeyConstraintFailed
                "snd (createReceiptWithItems
                        (checkout_of 1 0 [\<lparr>it_productId = 1, it_qty = 1\<rparr>]) 9 legacy_db)"]
          checkout_atomic
            [of "checkout_of 1 0
                   [\<lparr>it_productId = 1, it_qty = 1\<rparr>, \<lparr>it_productId = 2, it_qty = 5\<rparr>]"
                9 shop_db "InsufficientStock ''Soap''" shop_db]
          a' b c
    by (simp add: checkout_of_def)
qed

text \<open>
  C2 (stock conservation). The claim includes requests in which the same product id
  appears in more than one item. There the code falls short: every line is priced against
  the product row read before the first write, and the loop writes
  \<open>quantity (read at pricing) - qty\<close> for each line, so the last line for a product
  overwrites the earlier ones. Two lines selling 2 and 3 units of a product with 10 on
  hand leave 7, where the claim requires 5.
\<close>

theorem stock_duplicate_lines:
  "map p_quantity (products shop_db) = [10, 3] \<and>
   fst (createReceiptWithItems
          (checkout_of 1 0 [\<lparr>it_productId = 1, it_qty = 2\<rparr>, \<lparr>it_productId = 1, it_qty = 3\<rparr>])
          9 shop_db) =
     Inr \<lparr>r_receiptId = 1, r_transactionId = 1, r_totalAmount = 750, r_tax = 0,
          r_discount = 0\<rparr> \<and>
   map p_quantity (products (snd (createReceiptWithItems
          (checkout_of 1 0 [\<lparr>it_productId = 1, it_qty = 2\<rparr>, \<lparr>it_productId = 1, it_qty = 3\<rparr>])
          9 shop_db))) = [7, 3]"
  by code_simp

text \<open>
  C3 (totals formula). For every successful checkout: each line is priced from the
  product found for its item, with gross \<open>mrp * qty\<close> and tax \<open>gross * gst / 100\<close>; the
  subtotal is the sum of the line grosses, the tax the sum of the line taxes, and the
  returned total is \<open>max 0 (subtotal - discount + tax)\<close> with the returned (applied)
  discount and tax.
\<close>

theorem totals_formula:
  assumes "createReceiptWithItems args now d = (Inr res, d')"
  shows "\<exists>t. computeReceiptTotals d (a_items args) (a_discount args) = Inr t \<and>
           list_all2
             (\<lambda>it r. find (\<lambda>p. p_id p = it_productId it) (products d) = Some (l_product r) \<and>
                      l_qty r = it_qty it \<and>
                      l_lineGross r = p_mrp (l_product r) * it_qty it \<and>
                      l_lineTax r = l_lineGross r * p_gst (l_product r) / 100)
             (a_items args) (t_rows t) \<and>
           t_subtotal t = sum_list (map l_lineGross (t_rows t)) \<and>
           t_tax t = sum_list (map l_lineTax (t_rows t)) \<and>
           r_tax res = t_tax t \<and>
           r_discount res = t_discount t \<and>
           r_totalAmount res = max 0 (t_subtotal t - r_discount res + r_tax res)"
proof -
  from assms obtain t where
    t: "computeReceiptTotals d (a_items args) (a_discount args) = Inr t"
    and res: "res = \<lparr>r_receiptId = next_rowid (map tx_id (transactions d)) (transactions_seq d),
            r_transactionId = next_rowid (map tx_id (transactions d)) (transactions_seq d),
            r_totalAmount = t_total t, r_tax = t_tax t, r_discount = t_discount t\<rparr>"
    by (rule createReceiptWithItems_Inr)
  have "list_all2 (\<lambda>it r. price_line d it = Inr r) (a_items args) (t_rows t)"
    using computeReceiptTotals_rows [OF t] by (rule price_lines_Inr)
  then have "list_all2
             (\<lambda>it r. find (\<lambda>p. p_id p = it_productId it) (products d) = Some (l_product r) \<and>
                      l_qty r = it_qty it \<and>
                      l_lineGross r = p_mrp (l_product r) * it_qty it \<and>
                      l_lineTax r = l_lineGross r * p_gst (l_product r) / 100)
             (a_items args) (t_rows t)"
    by (rule list_all2_mono) (simp add: price_line_Inr)
  then show ?thesis
    using t res computeReceiptTotals_Inr [OF t] by simp
qed

text \<open>
  The sale of one unit of rice (150, no tax) and one of soap (50, 12 percent) with a
  discount of 20 returns the total 186.
\<close>

theorem totals_formula_witness:
  "createReceiptWithItems sale_args 9 shop_db =
     (Inr sale_result, snd (createReceiptWithItems sale_args 9 shop_db)) \<and>
   (\<exists>t. computeReceiptTotals shop_db (a_items sale_args) (a_discount sale_args) = Inr t \<and>
           list_all2
             (\<lambda>it r. find (\<lambda>p. p_id p = it_productId it) (products shop_db) = Some (l_product r) \<and>
                      l_qty r = it_qty it \<and>
                      l_lineGross r = p_mrp (l_product r) * it_qty it \<and>
                      l_lineTax r = l_lineGross r * p_gst (l_product r) / 100)
             (a_items sale_args) (t_rows t) \<and>
           t_subtotal t = sum_list (map l_lineGross (t_rows t)) \<and>
           t_tax t = sum_list (map l_lineTax (t_rows t)) \<and>
           r_tax sale_result = t_tax t \<and>
           r_discount sale_result = t_discount t \<and>
           r_totalAmount sale_result = max 0 (t_subtotal t - r_discount sale_result + r_tax sale_result))"
  by (intro conjI sale_succeeds totals_formula [OF sale_succeeds])

text \<open>
  C4 (discount clamp), as amended. The applied discount is
  \<open>max 0 (min d subtotal)\<close> for every requested discount \<open>d\<close>. This is the claimed
  \<open>min (max d 0) subtotal\<close> whenever the subtotal is not negative; for a negative subtotal
  (a product with a negative unit price) the applied discount is 0. The clamp raises
  nothing: whether the checkout fails, and with which error, does not depend on the
  requested discount.
\<close>

theorem discount_clamp:
  "(createReceiptWithItems args now d = (Inr res, d') \<longrightarrow>
      (\<exists>t. computeReceiptTotals d (a_items args) (a_discount args) = Inr t \<and>
           r_discount res = max 0 (min (a_discount args) (t_subtotal t)) \<and>
           (0 \<le> t_subtotal t \<longrightarrow>
              r_discount res = min (max (a_discount args) 0) (t_subtotal t)) \<and>
           (t_subtotal t < 0 \<longrightarrow> r_discount res = 0))) \<and>
   (fst (createReceiptWithItems (args\<lparr>a_discount := x\<rparr>) now d) = Inl e \<longleftrightarrow>
    fst (createReceiptWithItems args now d) = Inl e)"
proof -
  have "\<exists>t. computeReceiptTotals d (a_items args) (a_discount args) = Inr t \<and>
           r_discount res = max 0 (min (a_discount args) (t_subtotal t)) \<and>
           (0 \<le> t_subtotal t \<longrightarrow>
              r_discount res = min (max (a_discount args) 0) (t_subtotal t)) \<and>
           (t_subtotal t < 0 \<longrightarrow> r_discount res = 0)"
    if "createReceiptWithItems args now d = (Inr res, d')"
  proof -
    from that obtain t where
      t: "computeReceiptTotals d (a_items args) (a_discount args) = Inr t"
      and res: "res = \<lparr>r_receiptId = next_rowid (map tx_id (transactions d)) (transactions_seq d),
            r_transactionId = next_rowid (map tx_id (transactions d)) (transactions_seq d),
            r_totalAmount = t_total t, r_tax = t_tax t, r_discount = t_discount t\<rparr>"
      by (rule createReceiptWithItems_Inr)
    have "r_discount res = max 0 (min (a_discount args) (t_subtotal t))"
      using computeReceiptTotals_Inr(3) [OF t] by (simp add: res)
    then show ?thesis
      using t by auto
  qed
  moreover have "fst (createReceiptWithItems (args\<lparr>a_discount := x\<rparr>) now d) = Inl e \<longleftrightarrow>
    fst (createReceiptWithItems args now d) = Inl e"
    by (simp add: checkout_error_iff)
  ultimately show ?thesis by blast
qed

text \<open>
  A discount of 500 on a subtotal of 50 is applied as 50; a discount of 5 on a subtotal
  of -10 is applied as 0.
\<close>

theorem discount_clamp_witness:
  "fst (createReceiptWithItems (checkout_of 1 500 [\<lparr>it_productId = 2, it_qty = 1\<rparr>]) 9 shop_db) =
     Inr \<lparr>r_receiptId = 1, r_transactionId = 1, r_totalAmount = 6, r_tax = 6, r_discount = 50\<rparr> \<and>
   map_sum id t_subtotal
     (computeReceiptTotals shop_db [\<lparr>it_productId = 2, it_qty = 1\<rparr>] 500) = Inr 50 \<and>
   (50 :: rat) = min (max 500 0) 50 \<and>
   fst (createReceiptWithItems (checkout_of 1 5 [\<lparr>it_productId = 3, it_qty = 1\<rparr>]) 9 refund_db) =
     Inr \<lparr>r_receiptId = 1, r_transactionId = 1, r_totalAmount = 0, r_tax = 0, r_discount = 0\<rparr> \<and>
   map_sum id t_subtotal
     (computeReceiptTotals refund_db [\<lparr>it_productId = 3, it_qty = 1\<rparr>] 5) = Inr (- 10)"
proof -
  let ?A = "checkout_of 1 500 [\<lparr>it_productId = 2, it_qty = 1\<rparr>]"
  let ?R = "\<lparr>r_receiptId = 1, r_transactionId = 1, r_totalAmount = 6, r_tax = 6,
             r_discount = 50 :: rat\<rparr>"
  let ?B = "checkout_of 1 5 [\<lparr>it_productId = 3, it_qty = 1\<rparr>]"
  let ?S = "\<lparr>r_receiptId = 1, r_transactionId = 1, r_totalAmount = 0, r_tax = 0,
             r_discount = 0 :: rat\<rparr>"
  have a: "fst (createReceiptWithItems ?A 9 shop_db) = Inr ?R"
    by code_simp
  have b: "fst (createReceiptWithItems ?B 9 refund_db) = Inr ?S"
    by code_simp
  have c: "map_sum id t_subtotal
     (computeReceiptTotals shop_db [\<lparr>it_productId = 2, it_qty = 1\<rparr>] 500) = Inr 50"
    by code_simp
  have e: "map_sum id t_subtotal
     (computeReceiptTotals refund_db [\<lparr>it_productId = 3, it_qty = 1\<rparr>] 5) = Inr (- 10)"
    by code_simp
  have a': "createReceiptWithItems ?A 9 shop_db =
              (Inr ?R, snd (createReceiptWithItems ?A 9 shop_db))"
    using a by (simp add: prod_eq_iff)
  have b': "createReceiptWithItems ?B 9 refund_db =
              (Inr ?S, snd (createReceiptWithItems ?B 9 refund_db))"
    using b by (simp add: prod_eq_iff)
  show ?thesis
    using discount_clamp [of ?A 9 shop_db ?R "snd (createReceiptWithItems ?A 9 shop_db)"]
      discount_clamp [of ?B 9 refund_db ?S "snd (createReceiptWithItems ?B 9 refund_db)"]
      a a' b b' c e
    by simp
qed

text \<open>
  The claim as stated fails on the store with the negative price: the subtotal is -10,
  the claimed applied discount \<open>min (max 5 0) (- 10)\<close> is -10, and the code applies 0.
\<close>

theorem discount_clamp_counterexample:
  "fst (createReceiptWithItems (checkout_of 1 5 [\<lparr>it_productId = 3, it_qty = 1\<rparr>]) 9 refund_db) =
     Inr \<lparr>r_receiptId = 1, r_transactionId = 1, r_totalAmount = 0, r_tax = 0, r_discount = 0\<rparr> \<and>
   map_sum id t_subtotal (computeReceiptTotals refund_db [\<lparr>it_productId = 3, it_qty = 1\<rparr>] 5) =
     Inr (- 10) \<and>
   min (max 5 0) (- 10 :: rat) \<noteq> 0"
  by code_simp



text \<open>
  C6 (stock check and the negative-stock setting), as amended. When the items before it
  price without error, an item with a positive quantity that exceeds the on-hand quantity
  of its product makes the checkout fail with \<^verbatim>\<open>InsufficientStock\<close> carrying the product
  name, and the store is left as it was, whatever the table \<^verbatim>\<open>store_settings\<close> holds:
  \<^verbatim>\<open>allowNegativeStock\<close> is stored by \<^verbatim>\<open>storeSettings:upsert\<close> and read by nothing.
\<close>

theorem insufficient_stock_rejected:
  assumes "price_lines d pre = Inr rs"
    and "find (\<lambda>p. p_id p = it_productId it) (products d) = Some p"
    and "0 < it_qty it"
    and "p_quantity p < it_qty it"
  shows "createReceiptWithItems (args\<lparr>a_items := pre @ it # post\<rparr>) now
           (d\<lparr>storeSettings := ss\<rparr>) =
         (Inl (InsufficientStock (p_productName p)), d\<lparr>storeSettings := ss\<rparr>)"
proof -
  have "price_line d it = Inl (InsufficientStock (p_productName p))"
    using assms(2-4) by (simp add: price_line_def)
  then have "price_lines d (pre @ it # post) = Inl (InsufficientStock (p_productName p))"
    using assms(1) by (rule price_lines_append_fail [rotated])
  then have "computeReceiptTotals (d\<lparr>storeSettings := ss\<rparr>)
               (a_items (args\<lparr>a_items := pre @ it # post\<rparr>))
               (a_discount (args\<lparr>a_items := pre @ it # post\<rparr>)) =
             Inl (InsufficientStock (p_productName p))"
    by (simp add: computeReceiptTotals_Inl_iff price_lines_storeSettings)
  from checkout_body_pricing_error [OF this, of now] show ?thesis
    by (simp add: createReceiptWithItems_def sqlite_transaction_def)
qed

text \<open>
  Five units of soap, of which 3 are on hand, after one unit of rice, with the setting
  switched on.
\<close>

theorem insufficient_stock_rejected_witness:
  "price_lines shop_db [\<lparr>it_productId = 1, it_qty = 1\<rparr>] =
     Inr [\<lparr>l_product = rice, l_qty = 1, l_lineGross = 150, l_lineTax = 0\<rparr>] \<and>
   find (\<lambda>p. p_id p = it_productId \<lparr>it_productId = 2, it_qty = 5\<rparr>) (products shop_db) =
     Some soap \<and>
   0 < it_qty \<lparr>it_productId = 2, it_qty = 5\<rparr> \<and>
   p_quantity soap < it_qty \<lparr>it_productId = 2, it_qty = 5\<rparr> \<and>
   createReceiptWithItems
     (checkout_of 1 0 [\<lparr>it_productId = 1, it_qty = 1\<rparr>, \<lparr>it_productId = 2, it_qty = 5\<rparr>]) 9
     (shop_db\<lparr>storeSettings :=
        [\<lparr>ss_id = 1, ss_userId = Some 1, ss_allowNegativeStock = True\<rparr>]\<rparr>) =
     (Inl (InsufficientStock ''Soap''),
      shop_db\<lparr>storeSettings :=
        [\<lparr>ss_id = 1, ss_userId = Some 1, ss_allowNegativeStock = True\<rparr>]\<rparr>)"
proof -
  have h1: "price_lines shop_db [\<lparr>it_productId = 1, it_qty = 1\<rparr>] =
     Inr [\<lparr>l_product = rice, l_qty = 1, l_lineGross = 150, l_lineTax = 0\<rparr>]"
    by code_simp
  have h2: "find (\<lambda>p. p_id p = it_productId \<lparr>it_productId = 2, it_qty = 5\<rparr>)
              (products shop_db) = Some soap"
    by (simp add: shop_db_def rice_def soap_def)
  have h3: "0 < it_qty \<lparr>it_productId = 2, it_qty = 5\<rparr>"
    by simp
  have h4: "p_quantity soap < it_qty \<lparr>it_productId = 2, it_qty = 5\<rparr>"
    by (simp add: soap_def)
  show ?thesis
    using insufficient_stock_rejected [OF h1 h2 h3 h4, where args = "checkout_of 1 0 []"
        and post = "[]" and now = 9
        and ss = "[\<lparr>ss_id = 1, ss_userId = Some 1, ss_allowNegativeStock = True\<rparr>]"]
      h1 h2 h3 h4
    by (simp add: checkout_of_def soap_def)
qed

text \<open>
  The claim as stated fails: the small store has \<^verbatim>\<open>allowNegativeStock\<close> switched on and
  the sale of 5 units of soap is still refused.
\<close>

theorem insufficient_stock_counterexample:
  "map ss_allowNegativeStock (storeSettings shop_db) = [True] \<and>
   createReceiptWithItems (checkout_of 1 0 [\<lparr>it_productId = 2, it_qty = 5\<rparr>]) 9 shop_db =
     (Inl (InsufficientStock ''Soap''), shop_db)"
  by code_simp

text \<open>
  C7 (empty cart), as amended. Neither the handler nor \<^verbatim>\<open>createReceiptWithItems\<close>
  rejects an empty list of items. When \<^verbatim>\<open>createdBy\<close> is the id of a user and the next
  transaction id is free in \<^verbatim>\<open>receipts\<close>, the checkout succeeds with total, tax and
  discount 0; it inserts one row into \<^verbatim>\<open>transactions\<close> and one into \<^verbatim>\<open>receipts\<close>, no
  row into \<^verbatim>\<open>transaction_items\<close> or \<^verbatim>\<open>product_logs\<close>, and changes no product.
\<close>

theorem empty_cart_accepted:
  assumes "a_items args = []"
    and "a_createdBy args \<in> set (map u_id (users d))"
    and "next_rowid (map tx_id (transactions d)) (transactions_seq d)
           \<notin> set (map rc_id (receipts d))"
  shows "\<exists>d' tx rc.
           createReceiptWithItems args now d =
             (Inr \<lparr>r_receiptId = next_rowid (map tx_id (transactions d)) (transactions_seq d),
                   r_transactionId = next_rowid (map tx_id (transactions d)) (transactions_seq d),
                   r_totalAmount = 0, r_tax = 0, r_discount = 0\<rparr>, d') \<and>
           transactions d' = transactions d @ [tx] \<and> tx_finalAmount tx = 0 \<and>
           receipts d' = receipts d @ [rc] \<and> rc_totalAmount rc = 0 \<and>
           transactionItems d' = transactionItems d \<and>
           productLogs d' = productLogs d \<and>
           products d' = products d"
proof -
  let ?t = "\<lparr>t_rows = [], t_subtotal = 0, t_tax = 0, t_discount = 0, t_total = 0\<rparr>"
  have t: "computeReceiptTotals d (a_items args) (a_discount args) = Inr ?t"
    using assms(1) by (simp add: computeReceiptTotals_def Let_def)
  show ?thesis
    using checkout_body_success [OF t assms(2) assms(3), of now]
    by (simp add: createReceiptWithItems_def sqlite_transaction_def persist_all_Nil
        head_db_simps [OF assms(2) assms(3)])
qed

text \<open>
  The empty checkout by user 1 on the small store.
\<close>

theorem empty_cart_accepted_witness:
  "a_items (checkout_of 1 0 []) = [] \<and>
   a_createdBy (checkout_of 1 0 []) \<in> set (map u_id (users shop_db)) \<and>
   next_rowid (map tx_id (transactions shop_db)) (transactions_seq shop_db)
     \<notin> set (map rc_id (receipts shop_db)) \<and>
   (\<exists>d' tx rc.
           createReceiptWithItems (checkout_of 1 0 []) 9 shop_db =
             (Inr \<lparr>r_receiptId = next_rowid (map tx_id (transactions shop_db)) (transactions_seq shop_db),
                   r_transactionId = next_rowid (map tx_id (transactions shop_db)) (transactions_seq shop_db),
                   r_totalAmount = 0, r_tax = 0, r_discount = 0\<rparr>, d') \<and>
           transactions d' = transactions shop_db @ [tx] \<and> tx_finalAmount tx = 0 \<and>
           receipts d' = receipts shop_db @ [rc] \<and> rc_totalAmount rc = 0 \<and>
           transactionItems d' = transactionItems shop_db \<and>
           productLogs d' = productLogs shop_db \<and>
           products d' = products shop_db)"
proof -
  have h1: "a_items (checkout_of 1 0 []) = []"
    by (simp add: checkout_of_def)
  have h2: "a_createdBy (checkout_of 1 0 []) \<in> set (map u_id (users shop_db))"
    by (simp add: checkout_of_def shop_db_def)
  have h3: "next_rowid (map tx_id (transactions shop_db)) (transactions_seq shop_db)
     \<notin> set (map rc_id (receipts shop_db))"
    by (simp add: shop_db_def)
  show ?thesis
    by (intro conjI h1 h2 h3 empty_cart_accepted [OF h1 h2 h3])
qed

text \<open>
  The claim as stated fails: the empty checkout returns a result, through the handler as
  well, and both tables have grown by a row.
\<close>

theorem empty_cart_counterexample:
  "fst (createReceiptWithItems (checkout_of 1 0 []) 9 shop_db) =
     Inr \<lparr>r_receiptId = 1, r_transactionId = 1, r_totalAmount = 0, r_tax = 0, r_discount = 0\<rparr> \<and>
   length (transactions shop_db) = 0 \<and>
   length (transactions (snd (createReceiptWithItems (checkout_of 1 0 []) 9 shop_db))) = 1 \<and>
   length (receipts shop_db) = 0 \<and>
   length (receipts (snd (createReceiptWithItems (checkout_of 1 0 []) 9 shop_db))) = 1 \<and>
   fst (pos_checkout \<lparr>rq_createdBy = 1, rq_discount = Some 0, rq_paymentSplit = shop_split,
                       rq_items = []\<rparr> 9 shop_db) =
     Inr \<lparr>r_receiptId = 1, r_transactionId = 1, r_totalAmount = 0, r_tax = 0, r_discount = 0\<rparr>"
  by code_simp

text \<open>
  C8 (actor validation), as amended. When \<^verbatim>\<open>createdBy\<close> is not the id of a row of
  \<^verbatim>\<open>users\<close>, the checkout fails and the store is left as it was: with the pricing error
  when pricing fails, and otherwise with the foreign-key failure of the insert into
  \<^verbatim>\<open>transactions\<close>, which is the first write, so that the body itself ends in the store
  it started from. The column \<^verbatim>\<open>active\<close> is not consulted: changing it in any way changes
  neither whether the checkout fails nor the error.
\<close>

theorem unknown_actor_rejected:
  "(a_createdBy args \<notin> set (map u_id (users d)) \<longrightarrow>
      createReceiptWithItems args now d =
        (case computeReceiptTotals d (a_items args) (a_discount args) of
           Inl e \<Rightarrow> (Inl e, d)
         | Inr t \<Rightarrow> (Inl ForeignKeyConstraintFailed, d)) \<and>
      checkout_body args now d = createReceiptWithItems args now d) \<and>
   (fst (createReceiptWithItems args now
           (d\<lparr>users := map (\<lambda>u. u\<lparr>u_active := act u\<rparr>) (users d)\<rparr>)) = Inl e \<longleftrightarrow>
    fst (createReceiptWithItems args now d) = Inl e)"
proof -
  have "createReceiptWithItems args now d =
        (case computeReceiptTotals d (a_items args) (a_discount args) of
           Inl e \<Rightarrow> (Inl e, d)
         | Inr t \<Rightarrow> (Inl ForeignKeyConstraintFailed, d)) \<and>
      checkout_body args now d = createReceiptWithItems args now d"
    if "a_createdBy args \<notin> set (map u_id (users d))"
  proof (cases "computeReceiptTotals d (a_items args) (a_discount args)")
    case (Inl e)
    then show ?thesis
      using checkout_body_pricing_error [OF Inl, of now]
      by (simp add: createReceiptWithItems_def sqlite_transaction_def)
  next
    case (Inr t)
    then show ?thesis
      using checkout_body_no_user [OF Inr that, of now]
      by (simp add: createReceiptWithItems_def sqlite_transaction_def)
  qed
  moreover have "fst (createReceiptWithItems args now
           (d\<lparr>users := map (\<lambda>u. u\<lparr>u_active := act u\<rparr>) (users d)\<rparr>)) = Inl e \<longleftrightarrow>
    fst (createReceiptWithItems args now d) = Inl e"
    by (simp add: checkout_error_iff price_lines_users comp_def split: sum.splits)
  ultimately show ?thesis by blast
qed

text \<open>
  A checkout by user 3, who does not exist in the small store.
\<close>

theorem unknown_actor_rejected_witness:
  "a_createdBy (checkout_of 3 0 [\<lparr>it_productId = 1, it_qty = 1\<rparr>])
     \<notin> set (map u_id (users shop_db)) \<and>
   createReceiptWithItems (checkout_of 3 0 [\<lparr>it_productId = 1, it_qty = 1\<rparr>]) 9 shop_db =
     (Inl ForeignKeyConstraintFailed, shop_db) \<and>
   checkout_body (checkout_of 3 0 [\<lparr>it_productId = 1, it_qty = 1\<rparr>]) 9 shop_db =
     (Inl ForeignKeyConstraintFailed, shop_db)"
proof -
  let ?A = "checkout_of 3 0 [\<lparr>it_productId = 1, it_qty = 1\<rparr>]"
  have h: "a_createdBy ?A \<notin> set (map u_id (users shop_db))"
    by (simp add: checkout_of_def shop_db_def)
  have c: "map_sum id t_total (computeReceiptTotals shop_db (a_items ?A) (a_discount ?A)) =
             Inr 150"
    by code_simp
  then obtain t where "computeReceiptTotals shop_db (a_items ?A) (a_discount ?A) = Inr t"
    by (cases "computeReceiptTotals shop_db (a_items ?A) (a_discount ?A)") simp_all
  then show ?thesis
    using unknown_actor_rejected [where args = ?A and d = shop_db and now = 9] h
    by simp
qed

text \<open>
  The claim as stated fails: user 2 of the small store is deactivated and the checkout
  made in that name succeeds, through the handler as well.
\<close>

theorem unknown_actor_counterexample:
  "map u_active (filter (\<lambda>u. u_id u = 2) (users shop_db)) = [False] \<and>
   fst (createReceiptWithItems (checkout_of 2 0 [\<lparr>it_productId = 1, it_qty = 1\<rparr>]) 9 shop_db) =
     Inr \<lparr>r_receiptId = 1, r_transactionId = 1, r_totalAmount = 150, r_tax = 0,
          r_discount = 0\<rparr> \<and>
   fst (pos_checkout \<lparr>rq_createdBy = 2, rq_discount = None, rq_paymentSplit = shop_split,
                       rq_items = [\<lparr>it_productId = 1, it_qty = 1\<rparr>]\<rparr> 9 shop_db) =
     Inr \<lparr>r_receiptId = 1, r_transactionId = 1, r_totalAmount = 150, r_tax = 0,
          r_discount = 0\<rparr>"
  by code_simp

text \<open>
  C9 (read after write). After a successful checkout the row of \<^verbatim>\<open>receipts\<close> found
  under the returned \<^verbatim>\<open>receiptId\<close> carries the returned total, tax and discount, and so
  does the row of \<^verbatim>\<open>transactions\<close> found under the returned \<^verbatim>\<open>transactionId\<close>.
\<close>

theorem read_after_write:
  assumes "createReceiptWithItems args now d = (Inr res, d')"
  shows "\<exists>rc tx.
           find (\<lambda>r. rc_id r = r_receiptId res) (receipts d') = Some rc \<and>
           rc_totalAmount rc = r_totalAmount res \<and>
           rc_tax rc = r_tax res \<and>
           rc_discount rc = Some (r_discount res) \<and>
           find (\<lambda>r. tx_id r = r_transactionId res) (transactions d') = Some tx \<and>
           tx_finalAmount tx = r_totalAmount res \<and>
           tx_tax tx = r_tax res \<and>
           tx_discount tx = Some (r_discount res)"
proof -
  let ?tid = "next_rowid (map tx_id (transactions d)) (transactions_seq d)"
  from assms obtain t where
    u: "a_createdBy args \<in> set (map u_id (users d))"
    and f: "?tid \<notin> set (map rc_id (receipts d))"
    and res: "res = \<lparr>r_receiptId = ?tid, r_transactionId = ?tid,
            r_totalAmount = t_total t, r_tax = t_tax t, r_discount = t_discount t\<rparr>"
    and d': "d' = persist_all ?tid ?tid (t_subtotal t) (t_discount t) (a_receiptDate args)
                    now (t_rows t) (head_db args t d)"
    by (rule createReceiptWithItems_Inr)
  have g: "?tid \<notin> set (map tx_id (transactions d))"
    by (rule next_rowid_notin)
  have "find (\<lambda>r. rc_id r = ?tid) (receipts d') =
          Some \<lparr>rc_id = ?tid, rc_totalAmount = t_total t, rc_tax = t_tax t,
                rc_paymentSplit = splitToJson (a_paymentSplit args),
                rc_discount = Some (t_discount t),
                rc_receiptDate = Some (a_receiptDate args), rc_createdBy = a_createdBy args\<rparr>"
  proof -
    have "\<forall>y \<in> set (receipts d). \<not> rc_id y = ?tid"
      using f by (auto simp: image_iff)
    then show ?thesis
      by (simp add: d' persist_all_frame head_db_simps [OF u f] find_append_fresh)
  qed
  moreover have "find (\<lambda>r. tx_id r = ?tid) (transactions d') =
          Some \<lparr>tx_id = ?tid, tx_finalAmount = t_total t, tx_tax = t_tax t,
                tx_paymentSplit = splitToJson (a_paymentSplit args),
                tx_discount = Some (t_discount t),
                tx_transactionDate = a_receiptDate args, tx_createdBy = a_createdBy args\<rparr>"
  proof -
    have "\<forall>y \<in> set (transactions d). \<not> tx_id y = ?tid"
      using g by (auto simp: image_iff)
    then show ?thesis
      by (simp add: d' persist_all_frame head_db_simps [OF u f] find_append_fresh)
  qed
  ultimately show ?thesis
    by (simp add: res)
qed

text \<open>
  The sale on the small store, read back.
\<close>

theorem read_after_write_witness:
  "createReceiptWithItems sale_args 9 shop_db =
     (Inr sale_result, snd (createReceiptWithItems sale_args 9 shop_db)) \<and>
   (\<exists>rc tx.
           find (\<lambda>r. rc_id r = r_receiptId sale_result)
             (receipts (snd (createReceiptWithItems sale_args 9 shop_db))) = Some rc \<and>
           rc_totalAmount rc = r_totalAmount sale_result \<and>
           rc_tax rc = r_tax sale_result \<and>
           rc_discount rc = Some (r_discount sale_result) \<and>
           find (\<lambda>r. tx_id r = r_transactionId sale_result)
             (transactions (snd (createReceiptWithItems sale_args 9 shop_db))) = Some tx \<and>
           tx_finalAmount tx = r_totalAmount sale_result \<and>
           tx_tax tx = r_tax sale_result \<and>
           tx_discount tx = Some (r_discount sale_result))"
  by (intro conjI sale_succeeds read_after_write [OF sale_succeeds])

text \<open>
  C10 (dual write). A successful checkout appends exactly one row to \<^verbatim>\<open>transactions\<close>
  and exactly one to \<^verbatim>\<open>receipts\<close>; both carry the returned id, and they agree on the
  amount, tax, discount, payment split (the three amounts, a missing one written as 0),
  date and \<^verbatim>\<open>createdBy\<close>.
\<close>

theorem dual_write:
  assumes "createReceiptWithItems args now d = (Inr res, d')"
  shows "\<exists>tx rc.
           transactions d' = transactions d @ [tx] \<and>
           receipts d' = receipts d @ [rc] \<and>
           rc_id rc = tx_id tx \<and>
           tx_id tx = r_transactionId res \<and>
           rc_id rc = r_receiptId res \<and>
           rc_totalAmount rc = tx_finalAmount tx \<and>
           rc_tax rc = tx_tax tx \<and>
           rc_discount rc = tx_discount tx \<and>
           rc_paymentSplit rc = tx_paymentSplit tx \<and>
           tx_paymentSplit tx =
             SplitJson (case cashAmt (a_paymentSplit args) of None \<Rightarrow> 0 | Some v \<Rightarrow> v)
                       (case upiAmt (a_paymentSplit args) of None \<Rightarrow> 0 | Some v \<Rightarrow> v)
                       (case cardAmt (a_paymentSplit args) of None \<Rightarrow> 0 | Some v \<Rightarrow> v) \<and>
           rc_receiptDate rc = Some (tx_transactionDate tx) \<and>
           tx_transactionDate tx = a_receiptDate args \<and>
           rc_createdBy rc = tx_createdBy tx \<and>
           tx_createdBy tx = a_createdBy args"
proof -
  let ?tid = "next_rowid (map tx_id (transactions d)) (transactions_seq d)"
  from assms obtain t where
    u: "a_createdBy args \<in> set (map u_id (users d))"
    and f: "?tid \<notin> set (map rc_id (receipts d))"
    and res: "res = \<lparr>r_receiptId = ?tid, r_transactionId = ?tid,
            r_totalAmount = t_total t, r_tax = t_tax t, r_discount = t_discount t\<rparr>"
    and d': "d' = persist_all ?tid ?tid (t_subtotal t) (t_discount t) (a_receiptDate args)
                    now (t_rows t) (head_db args t d)"
    by (rule createReceiptWithItems_Inr)
  have s: "splitToJson (a_paymentSplit args) =
             SplitJson (case cashAmt (a_paymentSplit args) of None \<Rightarrow> 0 | Some v \<Rightarrow> v)
                       (case upiAmt (a_paymentSplit args) of None \<Rightarrow> 0 | Some v \<Rightarrow> v)
                       (case cardAmt (a_paymentSplit args) of None \<Rightarrow> 0 | Some v \<Rightarrow> v)"
    by (simp add: splitToJson_def opt_or_zero_def or_zero_id split: option.splits)
  show ?thesis
    by (simp add: d' res persist_all_frame head_db_simps [OF u f] s)
qed

text \<open>
  The sale on the small store.
\<close>

theorem dual_write_witness:
  "createReceiptWithItems sale_args 9 shop_db =
     (Inr sale_result, snd (createReceiptWithItems sale_args 9 shop_db)) \<and>
   (\<exists>tx rc.
           transactions (snd (createReceiptWithItems sale_args 9 shop_db)) =
             transactions shop_db @ [tx] \<and>
           receipts (snd (createReceiptWithItems sale_args 9 shop_db)) =
             receipts shop_db @ [rc] \<and>
           rc_id rc = tx_id tx \<and>
           tx_id tx = r_transactionId sale_result \<and>
           rc_id rc = r_receiptId sale_result \<and>
           rc_totalAmount rc = tx_finalAmount tx \<and>
           rc_tax rc = tx_tax tx \<and>
           rc_discount rc = tx_discount tx \<and>
           rc_paymentSplit rc = tx_paymentSplit tx \<and>
           tx_paymentSplit tx =
             SplitJson (case cashAmt (a_paymentSplit sale_args) of None \<Rightarrow> 0 | Some v \<Rightarrow> v)
                       (case upiAmt (a_paymentSplit sale_args) of None \<Rightarrow> 0 | Some v \<Rightarrow> v)
                       (case cardAmt (a_paymentSplit sale_args) of None \<Rightarrow> 0 | Some v \<Rightarrow> v) \<and>
           rc_receiptDate rc = Some (tx_transactionDate tx) \<and>
           tx_transactionDate tx = a_receiptDate sale_args \<and>
           rc_createdBy rc = tx_createdBy tx \<and>
           tx_createdBy tx = a_createdBy sale_args)"
  by (intro conjI sale_succeeds dual_write [OF sale_succeeds])

end
